theory Spec2Isabelle
  imports
    Main
    "HOL-Library.Char_ord"
    "HOL-Library.List_Lexorder"
    "HOL-Library.Product_Lexorder"
    "HOL-Library.Multiset"
    "HOL-Library.AList"
    "HOL-Library.Sublist"
begin

section \<open>Text\<close>

text \<open>
  Python text is modelled as \<^typ>\<open>string\<close>. The character classes below are the ones
  Python uses on ASCII text: \<open>str.isspace\<close>, \<open>str.strip\<close> and the pattern \<open>\s\<close> accept the
  code points 9 to 13, 28 to 31 and 32; \<open>\w\<close> accepts letters, digits and the underscore;
  \<open>str.lower\<close> and \<open>re.IGNORECASE\<close> fold \<open>A\<close> .. \<open>Z\<close> to \<open>a\<close> .. \<open>z\<close>. Characters beyond
  ASCII are outside the scope of the model (they are in none of the classes and are
  left alone by \<open>lower\<close>).
\<close>

definition is_space :: "char \<Rightarrow> bool" where
  "is_space c \<longleftrightarrow> c \<in> set [CHR 0x09, CHR 0x0A, CHR 0x0B, CHR 0x0C, CHR 0x0D,
                            CHR 0x1C, CHR 0x1D, CHR 0x1E, CHR 0x1F, CHR 0x20]"

definition uppercase :: string where
  "uppercase = ''ABCDEFGHIJKLMNOPQRSTUVWXYZ''"

definition lowercase :: string where
  "lowercase = ''abcdefghijklmnopqrstuvwxyz''"

definition digits :: string where
  "digits = ''0123456789''"

definition is_word :: "char \<Rightarrow> bool" where
  "is_word c \<longleftrightarrow> c \<in> set (lowercase @ uppercase @ digits @ ''_'')"

definition lower_char :: "char \<Rightarrow> char" where
  "lower_char c = (case map_of (zip uppercase lowercase) c of Some l \<Rightarrow> l | None \<Rightarrow> c)"

definition lower :: "string \<Rightarrow> string" where
  "lower s = map lower_char s"

definition strip :: "string \<Rightarrow> string" where
  "strip s = rev (dropWhile is_space (rev (dropWhile is_space s)))"

section \<open>Constants (src/constants.py)\<close>

datatype TaskStatus = completed | not_completed

datatype TaskPriority = low | normal | high

datatype TaskCategory = work | study | personal

fun STATUS_SORT_ORDER :: "TaskStatus \<Rightarrow> nat" where
  "STATUS_SORT_ORDER not_completed = 0"
| "STATUS_SORT_ORDER completed = 1"

fun PRIORITY_SORT_ORDER :: "TaskPriority \<Rightarrow> nat" where
  "PRIORITY_SORT_ORDER high = 0"
| "PRIORITY_SORT_ORDER normal = 1"
| "PRIORITY_SORT_ORDER low = 2"

fun CATEGORY_SORT_ORDER :: "TaskCategory \<Rightarrow> nat" where
  "CATEGORY_SORT_ORDER work = 0"
| "CATEGORY_SORT_ORDER study = 1"
| "CATEGORY_SORT_ORDER personal = 2"

text \<open>The three enumerations derive from \<open>str\<close>: each member has a text value.\<close>

fun status_value :: "TaskStatus \<Rightarrow> string" where
  "status_value completed = ''completed''"
| "status_value not_completed = ''not_completed''"

fun priority_value :: "TaskPriority \<Rightarrow> string" where
  "priority_value low = ''low''"
| "priority_value normal = ''normal''"
| "priority_value high = ''high''"

fun category_value :: "TaskCategory \<Rightarrow> string" where
  "category_value work = ''work''"
| "category_value study = ''study''"
| "category_value personal = ''personal''"

section \<open>Calendar dates (datetime.date)\<close>

record date =
  year :: nat
  month :: nat
  day :: nat

definition is_leap :: "nat \<Rightarrow> bool" where
  "is_leap y \<longleftrightarrow> y mod 4 = 0 \<and> (y mod 100 \<noteq> 0 \<or> y mod 400 = 0)"

definition days_in_month :: "nat \<Rightarrow> nat \<Rightarrow> nat" where
  "days_in_month y m =
     (if m = 2 then (if is_leap y then 29 else 28)
      else if m \<in> {4, 6, 9, 11} then 30 else 31)"

text \<open>The values a \<open>datetime.date\<close> object can hold.\<close>

definition valid_date :: "date \<Rightarrow> bool" where
  "valid_date d \<longleftrightarrow>
     1 \<le> year d \<and> year d \<le> 9999 \<and> 1 \<le> month d \<and> month d \<le> 12 \<and>
     1 \<le> day d \<and> day d \<le> days_in_month (year d) (month d)"

text \<open>Dates compare by year, then month, then day.\<close>

definition date_key :: "date \<Rightarrow> nat \<times> nat \<times> nat" where
  "date_key d = (year d, month d, day d)"

definition digit :: "nat \<Rightarrow> char" where
  "digit n = digits ! (n mod 10)"

definition digit_val :: "char \<Rightarrow> nat option" where
  "digit_val c = map_of (zip digits [0 ..< 10]) c"

text \<open>\<open>str(date)\<close> is \<open>date.isoformat()\<close>: \<open>YYYY-MM-DD\<close>, zero padded.\<close>

definition date_str :: "date \<Rightarrow> string" where
  "date_str d =
     [digit (year d div 1000), digit (year d div 100), digit (year d div 10), digit (year d)] @
     ''-'' @ [digit (month d div 10), digit (month d)] @
     ''-'' @ [digit (day d div 10), digit (day d)]"

text \<open>
  Reading a date from text, as the validation of a \<open>date\<close> field does with a string in
  the form \<open>YYYY-MM-DD\<close>. Other spellings are rejected by the model.
\<close>

definition number2 :: "char \<Rightarrow> char \<Rightarrow> nat option" where
  "number2 a b =
     (case (digit_val a, digit_val b) of
        (Some x, Some y) \<Rightarrow> Some (10 * x + y)
      | _ \<Rightarrow> None)"

definition date_parse :: "string \<Rightarrow> date option" where
  "date_parse s =
     (case s of
        [y1, y2, y3, y4, s1, m1, m2, s2, d1, d2] \<Rightarrow>
          (if s1 = CHR ''-'' \<and> s2 = CHR ''-'' then
             (case (number2 y1 y2, number2 y3 y4, number2 m1 m2, number2 d1 d2) of
                (Some yh, Some yl, Some m, Some d) \<Rightarrow>
                  (let r = \<lparr>year = 100 * yh + yl, month = m, day = d\<rparr>
                   in if valid_date r then Some r else None)
              | _ \<Rightarrow> None)
           else None)
      | _ \<Rightarrow> None)"

section \<open>Errors (src/exceptions.py and the exceptions of the libraries)\<close>

datatype error =
    TaskDoesNotExists string
  | ValidationError
  | AttributeError
  | JSONDecodeError

text \<open>The message of \<open>TaskDoesNotExists\<close> carries the identifier it was raised with.\<close>

fun msg :: "error \<Rightarrow> string" where
  "msg (TaskDoesNotExists task_id) =
     ''The task with the id '' @ [CHR 0x22] @ task_id @ [CHR 0x22] @ '' does not exist.''"
| "msg _ = []"

section \<open>Schemas (src/schemas.py)\<close>

record BaseTaskSchema =
  name :: string
  description :: string
  category :: TaskCategory
  deadline :: date
  priority :: TaskPriority

type_synonym TaskCreate = BaseTaskSchema

record TaskRead = BaseTaskSchema +
  id' :: string
  status :: TaskStatus

text \<open>\<open>TaskUpdate\<close>: every field is optional and absent (\<open>None\<close>) by default.\<close>

record TaskUpdate =
  u_name :: "string option"
  u_description :: "string option"
  u_category :: "TaskCategory option"
  u_deadline :: "date option"
  u_priority :: "TaskPriority option"
  u_status :: "TaskStatus option"

text \<open>
  The Python objects that occur as values of the dictionaries the schemas are dumped
  to and validated from, and as arguments where the source expects text.
\<close>

datatype pyval =
    Str string
  | IntVal int
  | Date date
  | Status TaskStatus
  | Priority TaskPriority
  | Category TaskCategory
  | Other

text \<open>\<open>BaseTaskSchema.validate_author\<close>: a name that is empty after \<open>strip\<close> is refused.\<close>

definition validate_author :: "string \<Rightarrow> error + string" where
  "validate_author v = (if strip v = [] then Inl ValidationError else Inr v)"

text \<open>\<open>TaskRead.serialize_model\<close>: seven keys, in this order, each with a text value.\<close>

definition serialize_model :: "TaskRead \<Rightarrow> (string \<times> string) list" where
  "serialize_model self =
     [(''id'', id' self),
      (''name'', name self),
      (''description'', description self),
      (''status'', status_value (status self)),
      (''priority'', priority_value (priority self)),
      (''category'', category_value (category self)),
      (''deadline'', date_str (deadline self))]"

text \<open>
  \<open>TaskUpdate.model_dump(exclude_none=True)\<close>: the fields that are present, with the
  objects they hold.
\<close>

definition entry :: "string \<Rightarrow> ('a \<Rightarrow> pyval) \<Rightarrow> 'a option \<Rightarrow> (string \<rightharpoonup> pyval)" where
  "entry k f x = (case x of None \<Rightarrow> Map.empty | Some v \<Rightarrow> [k \<mapsto> f v])"

definition update_dump :: "TaskUpdate \<Rightarrow> (string \<rightharpoonup> pyval)" where
  "update_dump data =
     entry ''name'' Str (u_name data) ++
     entry ''description'' Str (u_description data) ++
     entry ''category'' Category (u_category data) ++
     entry ''deadline'' Date (u_deadline data) ++
     entry ''priority'' Priority (u_priority data) ++
     entry ''status'' Status (u_status data)"

text \<open>
  Validation of one field of \<open>TaskRead\<close>. A text field takes text. An enumeration field
  takes a member, or the text value of a member. A date field takes a date, or text in
  the form \<open>YYYY-MM-DD\<close>. A missing key and any other object are refused.
\<close>

fun v_str :: "pyval option \<Rightarrow> string option" where
  "v_str (Some (Str s)) = Some s"
| "v_str _ = None"

fun v_status :: "pyval option \<Rightarrow> TaskStatus option" where
  "v_status (Some (Status e)) = Some e"
| "v_status (Some (Str s)) = find (\<lambda>e. status_value e = s) [completed, not_completed]"
| "v_status _ = None"

fun v_priority :: "pyval option \<Rightarrow> TaskPriority option" where
  "v_priority (Some (Priority e)) = Some e"
| "v_priority (Some (Str s)) = find (\<lambda>e. priority_value e = s) [low, normal, high]"
| "v_priority _ = None"

fun v_category :: "pyval option \<Rightarrow> TaskCategory option" where
  "v_category (Some (Category e)) = Some e"
| "v_category (Some (Str s)) = find (\<lambda>e. category_value e = s) [work, study, personal]"
| "v_category _ = None"

fun v_date :: "pyval option \<Rightarrow> date option" where
  "v_date (Some (Date d)) = Some d"
| "v_date (Some (Str s)) = date_parse s"
| "v_date _ = None"

text \<open>\<open>TaskRead.model_validate\<close> on a dictionary.\<close>

definition model_validate :: "(string \<rightharpoonup> pyval) \<Rightarrow> error + TaskRead" where
  "model_validate d =
     (case (v_str (d ''name''), v_str (d ''description''), v_category (d ''category''),
            v_date (d ''deadline''), v_priority (d ''priority''), v_str (d ''id''),
            v_status (d ''status'')) of
        (Some n, Some ds, Some c, Some dl, Some p, Some i, Some st) \<Rightarrow>
          (case validate_author n of
             Inl e \<Rightarrow> Inl e
           | Inr n' \<Rightarrow>
               Inr \<lparr>name = n', description = ds, category = c, deadline = dl, priority = p,
                    id' = i, status = st\<rparr>)
      | _ \<Rightarrow> Inl ValidationError)"

section \<open>The JSON text written by \<open>json.dump\<close>\<close>

datatype json = JStr string | JArr "json list" | JObj "(string \<times> json) list"

definition hexdigits :: string where
  "hexdigits = ''0123456789abcdef''"

definition hex :: "nat \<Rightarrow> char" where
  "hex n = hexdigits ! (n mod 16)"

text \<open>
  With \<open>ensure_ascii=False\<close> the encoder escapes the quote, the backslash and the
  control characters below 32, and writes every other character as it is.
\<close>

definition escape_char :: "char \<Rightarrow> string" where
  "escape_char c =
     (if c = CHR 0x22 then [CHR 0x5C, CHR 0x22]
      else if c = CHR 0x5C then [CHR 0x5C, CHR 0x5C]
      else if c = CHR 0x0A then [CHR 0x5C, CHR ''n'']
      else if c = CHR 0x0D then [CHR 0x5C, CHR ''r'']
      else if c = CHR 0x09 then [CHR 0x5C, CHR ''t'']
      else if c = CHR 0x08 then [CHR 0x5C, CHR ''b'']
      else if c = CHR 0x0C then [CHR 0x5C, CHR ''f'']
      else if of_char c < (32 :: nat) then
        [CHR 0x5C, CHR ''u'', CHR ''0'', CHR ''0'', hex (of_char c div 16), hex (of_char c)]
      else [c])"

definition json_str :: "string \<Rightarrow> string" where
  "json_str s = [CHR 0x22] @ concat (map escape_char s) @ [CHR 0x22]"

text \<open>A line break followed by the indentation of a nesting level (\<open>indent=4\<close>).\<close>

definition nl :: "nat \<Rightarrow> string" where
  "nl lvl = CHR 0x0A # replicate (4 * lvl) CHR '' ''"

fun dumps :: "nat \<Rightarrow> json \<Rightarrow> string"
  and dumps_items :: "nat \<Rightarrow> json list \<Rightarrow> string"
  and dumps_members :: "nat \<Rightarrow> (string \<times> json) list \<Rightarrow> string" where
  "dumps lvl (JStr s) = json_str s"
| "dumps lvl (JArr []) = ''[]''"
| "dumps lvl (JArr (x # xs)) =
     ''['' @ nl (Suc lvl) @ dumps_items (Suc lvl) (x # xs) @ nl lvl @ '']''"
| "dumps lvl (JObj []) = ''{}''"
| "dumps lvl (JObj (m # ms)) =
     ''{'' @ nl (Suc lvl) @ dumps_members (Suc lvl) (m # ms) @ nl lvl @ ''}''"
| "dumps_items lvl [] = []"
| "dumps_items lvl [x] = dumps lvl x"
| "dumps_items lvl (x # y # ys) = dumps lvl x @ '','' @ nl lvl @ dumps_items lvl (y # ys)"
| "dumps_members lvl [] = []"
| "dumps_members lvl [(k, v)] = json_str k @ '': '' @ dumps lvl v"
| "dumps_members lvl ((k, v) # m # ms) =
     json_str k @ '': '' @ dumps lvl v @ '','' @ nl lvl @ dumps_members lvl (m # ms)"

section \<open>The JSON text read by \<open>json.load\<close>\<close>

text \<open>
  The decoder for documents built from strings, arrays and objects, which are the
  documents \<open>save_data\<close> writes. Numbers and the literals \<open>true\<close>, \<open>false\<close> and \<open>null\<close>
  are outside the model and are reported like malformed text, as is an escape
  \<open>\uXXXX\<close> of a character beyond the 8-bit characters of \<^typ>\<open>string\<close>.
\<close>

definition is_json_ws :: "char \<Rightarrow> bool" where
  "is_json_ws c \<longleftrightarrow> c \<in> set [CHR '' '', CHR 0x09, CHR 0x0A, CHR 0x0D]"

definition skip_ws :: "string \<Rightarrow> string" where
  "skip_ws s = dropWhile is_json_ws s"

definition hex_val :: "char \<Rightarrow> nat option" where
  "hex_val c = map_of (zip (hexdigits @ ''ABCDEF'') ([0 ..< 16] @ [10 ..< 16])) c"

text \<open>The character denoted by a backslash and one more character.\<close>

definition unescape :: "char \<Rightarrow> char option" where
  "unescape e =
     map_of [(CHR 0x22, CHR 0x22), (CHR 0x5C, CHR 0x5C), (CHR ''/'', CHR ''/''),
             (CHR ''b'', CHR 0x08), (CHR ''f'', CHR 0x0C), (CHR ''n'', CHR 0x0A),
             (CHR ''r'', CHR 0x0D), (CHR ''t'', CHR 0x09)] e"

definition prepend :: "'a \<Rightarrow> ('a list \<times> 'b) option \<Rightarrow> ('a list \<times> 'b) option" where
  "prepend x r = map_option (\<lambda>(xs, rest). (x # xs, rest)) r"

text \<open>
  The text after an opening quote, up to the closing quote: the string and the rest.
  A control character that is not escaped is refused.
\<close>

fun scan_string :: "string \<Rightarrow> (string \<times> string) option" where
  "scan_string [] = None"
| "scan_string (c # cs) =
     (if c = CHR 0x22 then Some ([], cs)
      else if c = CHR 0x5C then
        (case cs of
           [] \<Rightarrow> None
         | e # r \<Rightarrow>
             (if e = CHR ''u'' then
                (case r of
                   h1 # h2 # h3 # h4 # r' \<Rightarrow>
                     (case (hex_val h1, hex_val h2, hex_val h3, hex_val h4) of
                        (Some a, Some b, Some c', Some d) \<Rightarrow>
                          (if ((a * 16 + b) * 16 + c') * 16 + d < 256
                           then prepend (char_of (((a * 16 + b) * 16 + c') * 16 + d))
                                  (scan_string r')
                           else None)
                      | _ \<Rightarrow> None)
                 | _ \<Rightarrow> None)
              else (case unescape e of
                      None \<Rightarrow> None
                    | Some x \<Rightarrow> prepend x (scan_string r))))
      else if of_char c < (32 :: nat) then None
      else prepend c (scan_string cs))"

text \<open>
  The recursive descent over values, the elements of an array and the members of an
  object. The first argument bounds the number of nested calls; \<open>loads\<close> starts with the
  length of the text, which is enough for every document that \<open>dumps\<close> writes.
\<close>

fun parse_value :: "nat \<Rightarrow> string \<Rightarrow> (json \<times> string) option"
  and parse_items :: "nat \<Rightarrow> string \<Rightarrow> (json list \<times> string) option"
  and parse_members :: "nat \<Rightarrow> string \<Rightarrow> ((string \<times> json) list \<times> string) option" where
  "parse_value 0 s = None"
| "parse_value (Suc n) s =
     (case s of
        [] \<Rightarrow> None
      | c # cs \<Rightarrow>
          (if c = CHR 0x22 then map_option (\<lambda>(t, r). (JStr t, r)) (scan_string cs)
           else if c = CHR ''['' then
             (case skip_ws cs of
                [] \<Rightarrow> None
              | d # r \<Rightarrow>
                  (if d = CHR '']'' then Some (JArr [], r)
                   else map_option (\<lambda>(xs, r'). (JArr xs, r')) (parse_items n (d # r))))
           else if c = CHR ''{'' then
             (case skip_ws cs of
                [] \<Rightarrow> None
              | d # r \<Rightarrow>
                  (if d = CHR ''}'' then Some (JObj [], r)
                   else map_option (\<lambda>(ms, r'). (JObj ms, r')) (parse_members n (d # r))))
           else None))"
| "parse_items 0 s = None"
| "parse_items (Suc n) s =
     (case parse_value n s of
        None \<Rightarrow> None
      | Some (x, r) \<Rightarrow>
          (case skip_ws r of
             [] \<Rightarrow> None
           | d # r' \<Rightarrow>
               (if d = CHR '','' then prepend x (parse_items n (skip_ws r'))
                else if d = CHR '']'' then Some ([x], r')
                else None)))"
| "parse_members 0 s = None"
| "parse_members (Suc n) s =
     (case s of
        [] \<Rightarrow> None
      | q # cs \<Rightarrow>
          (if q \<noteq> CHR 0x22 then None
           else
             (case scan_string cs of
                None \<Rightarrow> None
              | Some (k, r) \<Rightarrow>
                  (case skip_ws r of
                     [] \<Rightarrow> None
                   | d # r1 \<Rightarrow>
                       (if d \<noteq> CHR '':'' then None
                        else
                          (case parse_value n (skip_ws r1) of
                             None \<Rightarrow> None
                           | Some (v, r2) \<Rightarrow>
                               (case skip_ws r2 of
                                  [] \<Rightarrow> None
                                | e # r3 \<Rightarrow>
                                    (if e = CHR '','' then
                                       prepend (k, v) (parse_members n (skip_ws r3))
                                     else if e = CHR ''}'' then Some ([(k, v)], r3)
                                     else None))))))))"

text \<open>
  \<open>json.loads\<close>: one value, with whitespace allowed before and after it; anything else,
  the empty text included, raises \<open>JSONDecodeError\<close>.
\<close>

definition loads :: "string \<Rightarrow> error + json" where
  "loads s =
     (case parse_value (length s) (skip_ws s) of
        None \<Rightarrow> Inl JSONDecodeError
      | Some (j, r) \<Rightarrow> if skip_ws r = [] then Inr j else Inl JSONDecodeError)"


section \<open>The task service (src/service.py)\<close>

record TaskService =
  file_name :: string
  tasks :: "TaskRead list"

text \<open>The files of the host: the text stored under each path that exists.\<close>

type_synonym files = "string \<rightharpoonup> string"

text \<open>
  \<open>TaskSchemaEncoder.default\<close>: the dictionary of \<open>serialize_model\<close>, with \<open>str\<close> applied
  to the value under \<open>deadline\<close> (which is text already, so \<open>str\<close> returns it).
\<close>

definition default' :: "TaskRead \<Rightarrow> (string \<times> string) list" where
  "default' obj =
     (let d = serialize_model obj
      in case map_of d ''deadline'' of
           Some v \<Rightarrow> AList.update ''deadline'' v d
         | None \<Rightarrow> d)"

definition encode :: "TaskRead list \<Rightarrow> json" where
  "encode ts = JArr (map (\<lambda>t. JObj (map (\<lambda>(k, v). (k, JStr v)) (default' t))) ts)"

text \<open>\<open>save_data\<close> overwrites the file with the whole list.\<close>

definition save_data :: "TaskService \<Rightarrow> files \<Rightarrow> files" where
  "save_data self fs = fs(file_name self \<mapsto> dumps 0 (encode (tasks self)))"

text \<open>
  The Python object of a JSON value inside a record read from the file, and
  \<open>TaskRead.model_validate\<close> on a JSON value: an object is validated as a dictionary
  (a key written twice holds its last value), anything else is refused.
\<close>

fun py_of :: "json \<Rightarrow> pyval" where
  "py_of (JStr s) = Str s"
| "py_of _ = Other"

fun validate_json :: "json \<Rightarrow> error + TaskRead" where
  "validate_json (JObj ms) = model_validate (map_of (rev (map (\<lambda>(k, v). (k, py_of v)) ms)))"
| "validate_json _ = Inl ValidationError"

text \<open>
  What \<open>for task in json.load(file)\<close> iterates over: the elements of an array, the
  keys of an object, the characters of a string.
\<close>

fun iterate :: "json \<Rightarrow> json list" where
  "iterate (JArr xs) = xs"
| "iterate (JObj ms) = map (\<lambda>(k, v). JStr k) ms"
| "iterate (JStr s) = map (\<lambda>c. JStr [c]) s"

text \<open>The list comprehension stops at the first entry that fails validation.\<close>

fun validate_all :: "json list \<Rightarrow> error + TaskRead list" where
  "validate_all [] = Inr []"
| "validate_all (task # rest) =
     (case validate_json task of
        Inl e \<Rightarrow> Inl e
      | Inr t \<Rightarrow> (case validate_all rest of Inl e \<Rightarrow> Inl e | Inr ts \<Rightarrow> Inr (t # ts)))"

text \<open>\<open>_load_data\<close>: an empty list when the path does not exist, else the decoded file.\<close>

definition load_data :: "string \<Rightarrow> files \<Rightarrow> error + TaskRead list" where
  "load_data path fs =
     (case fs path of
        Some text \<Rightarrow>
          (case loads text of
             Inl e \<Rightarrow> Inl e
           | Inr j \<Rightarrow> validate_all (iterate j))
      | None \<Rightarrow> Inr [])"

text \<open>\<open>TaskService.__init__\<close>\<close>

definition init :: "string \<Rightarrow> files \<Rightarrow> error + TaskService" where
  "init path fs =
     (case load_data path fs of
        Inl e \<Rightarrow> Inl e
      | Inr ts \<Rightarrow> Inr \<lparr>file_name = path, tasks = ts\<rparr>)"

definition basic_sorting_key ::
  "TaskRead \<Rightarrow> nat \<times> nat \<times> (nat \<times> nat \<times> nat) \<times> nat \<times> string" where
  "basic_sorting_key task =
     (PRIORITY_SORT_ORDER (priority task),
      STATUS_SORT_ORDER (status task),
      date_key (deadline task),
      CATEGORY_SORT_ORDER (category task),
      name task)"

text \<open>
  \<open>add\<close>: the new identifier is the text of a fresh random UUID, a parameter of the
  model. Building the \<open>TaskRead\<close> runs the validator of the name.
\<close>

definition add ::
  "string \<Rightarrow> TaskCreate \<Rightarrow> bool \<Rightarrow> TaskService \<times> files \<Rightarrow>
   (error + TaskRead) \<times> TaskService \<times> files" where
  "add uuid4 data need_save w =
     (case w of (self, fs) \<Rightarrow>
        (case validate_author (name data) of
           Inl e \<Rightarrow> (Inl e, self, fs)
         | Inr n \<Rightarrow>
             (let validated_task =
                    \<lparr>name = n, description = description data, category = category data,
                     deadline = deadline data, priority = priority data,
                     id' = uuid4, status = not_completed\<rparr>;
                  self' = self\<lparr>tasks := tasks self @ [validated_task]\<rparr>
              in (Inr validated_task, self', if need_save then save_data self' fs else fs))))"

text \<open>
  \<open>get_all\<close>: \<open>sorted\<close> is a stable sort by the key and builds a new list; the list of
  the store is not assigned to. The model returns the store next to the result, as it
  is after the call.
\<close>

definition get_all :: "TaskService \<Rightarrow> TaskRead list \<times> TaskService" where
  "get_all self = (sort_key basic_sorting_key (tasks self), self)"



definition get_by_category :: "TaskCategory \<Rightarrow> TaskService \<Rightarrow> TaskRead list" where
  "get_by_category c self = [task \<leftarrow> tasks self. c = category task]"

definition get_by_status :: "TaskStatus \<Rightarrow> TaskService \<Rightarrow> TaskRead list" where
  "get_by_status st self = [task \<leftarrow> tasks self. st = status task]"

definition get_by_category_and_status ::
  "TaskCategory \<Rightarrow> TaskStatus \<Rightarrow> TaskService \<Rightarrow> TaskRead list" where
  "get_by_category_and_status c st self =
     [task \<leftarrow> tasks self. c = category task \<and> st = status task]"


text \<open>
  \<open>task.model_dump()\<close> of a \<open>TaskRead\<close> is the dictionary its serializer returns: text
  under every key.
\<close>

definition model_dump :: "TaskRead \<Rightarrow> (string \<rightharpoonup> pyval)" where
  "model_dump task = (\<lambda>k. map_option Str (map_of (serialize_model task) k))"

text \<open>
  The loop of \<open>update\<close> over \<open>enumerate(self.tasks)\<close>: \<open>i\<close> is the index of the head of
  the part still to visit. The first task with the identifier is dumped, overlaid with
  the fields of the payload, validated and stored at its index.
\<close>

fun update_loop ::
  "string \<Rightarrow> TaskUpdate \<Rightarrow> TaskRead list \<Rightarrow> nat \<Rightarrow> TaskRead list \<Rightarrow> error + TaskRead list" where
  "update_loop task_id data all i [] = Inl (TaskDoesNotExists task_id)"
| "update_loop task_id data all i (task # rest) =
     (if lower task_id = lower (id' task) then
        (let task_data = model_dump task;
             new_data = update_dump data
         in case model_validate (task_data ++ new_data) of
              Inl e \<Rightarrow> Inl e
            | Inr t \<Rightarrow> Inr (all[i := t]))
      else update_loop task_id data all (Suc i) rest)"

definition update ::
  "string \<Rightarrow> TaskUpdate \<Rightarrow> bool \<Rightarrow> TaskService \<times> files \<Rightarrow>
   (error + unit) \<times> TaskService \<times> files" where
  "update task_id data need_save w =
     (case w of (self, fs) \<Rightarrow>
        (case update_loop task_id data (tasks self) 0 (tasks self) of
           Inl e \<Rightarrow> (Inl e, self, fs)
         | Inr ts \<Rightarrow>
             (let self' = self\<lparr>tasks := ts\<rparr>
              in (Inr (), self', if need_save then save_data self' fs else fs))))"

subsection \<open>Search\<close>

text \<open>
  The three rewriting steps of \<open>find\<close> on the query:
  \<open>re.sub(r'[^\w\s]', '', query)\<close> deletes every character that is neither a word
  character nor whitespace; \<open>re.sub(r' {2,}', ' ', query)\<close> replaces every maximal run of
  two or more space characters by one space; \<open>strip\<close> trims whitespace at both ends.
\<close>

definition remove_punctuation :: "string \<Rightarrow> string" where
  "remove_punctuation query = filter (\<lambda>c. \<not> (\<not> is_word c \<and> \<not> is_space c)) query"

fun collapse_spaces :: "string \<Rightarrow> string" where
  "collapse_spaces [] = []"
| "collapse_spaces [c] = [c]"
| "collapse_spaces (c # d # cs) =
     (if c = CHR '' '' \<and> d = CHR '' '' then collapse_spaces (d # cs)
      else c # collapse_spaces (d # cs))"

text \<open>\<open>str.split(" ")\<close>: the pieces between the space characters; never an empty list.\<close>

fun split_space :: "string \<Rightarrow> string list" where
  "split_space [] = [[]]"
| "split_space (c # cs) =
     (if c = CHR '' '' then [] # split_space cs
      else (case split_space cs of w # ws \<Rightarrow> (c # w) # ws | [] \<Rightarrow> [[c]]))"

definition query_keywords :: "string \<Rightarrow> string list" where
  "query_keywords query = split_space (strip (collapse_spaces (remove_punctuation query)))"

text \<open>
  The pattern \<open>'|'.join(rf'\b{word}\b' for word in keywords)\<close> in compiled form: an
  alternation with one branch for each keyword, each branch a word boundary, the
  characters of the keyword as literals, and a word boundary. A keyword holds word
  characters and whitespace only, none of which has a special meaning in a pattern.
\<close>

datatype atom = Boundary | Literal char

type_synonym pattern = "atom list list"

definition compile :: "string list \<Rightarrow> pattern" where
  "compile kws = map (\<lambda>word. [Boundary] @ map Literal word @ [Boundary]) kws"

text \<open>
  \<open>\b\<close> at position \<open>i\<close> of a text: exactly one of the characters before and after the
  position is a word character (a missing character counts as not one).
\<close>

definition at_boundary :: "string \<Rightarrow> nat \<Rightarrow> bool" where
  "at_boundary s i \<longleftrightarrow>
     (0 < i \<and> i \<le> length s \<and> is_word (s ! (i - 1))) \<noteq> (i < length s \<and> is_word (s ! i))"

text \<open>A branch matches at a position; literals are compared ignoring case.\<close>

fun match_at :: "atom list \<Rightarrow> string \<Rightarrow> nat \<Rightarrow> bool" where
  "match_at [] s i = True"
| "match_at (Boundary # as) s i = (at_boundary s i \<and> match_at as s i)"
| "match_at (Literal c # as) s i =
     (i < length s \<and> lower_char (s ! i) = lower_char c \<and> match_at as s (Suc i))"

text \<open>
  \<open>re.findall(query, text, re.IGNORECASE)\<close> is a non-empty list exactly when some branch
  of the pattern matches at some position of the text.
\<close>

definition search :: "pattern \<Rightarrow> string \<Rightarrow> bool" where
  "search p s = list_ex (\<lambda>i. list_ex (\<lambda>branch. match_at branch s i) p) [0 ..< Suc (length s)]"

fun find_loop :: "pattern \<Rightarrow> TaskRead list \<Rightarrow> TaskRead list \<Rightarrow> TaskRead list" where
  "find_loop query [] result = result"
| "find_loop query (task # rest) result =
     (if search query (name task) then find_loop query rest (result @ [task])
      else if search query (description task) then find_loop query rest (result @ [task])
      else find_loop query rest result)"

definition find' :: "string \<Rightarrow> TaskService \<Rightarrow> TaskRead list" where
  "find' query self =
     sort_key basic_sorting_key (find_loop (compile (query_keywords query)) (tasks self) [])"

section \<open>The canonical order, in the words of the specification\<close>

text \<open>
  The specification ranks \<open>high\<close> before \<open>normal\<close> before \<open>low\<close>, \<open>not_completed\<close> before
  \<open>completed\<close>, and \<open>work\<close> before \<open>study\<close> before \<open>personal\<close>; dates are ordered
  chronologically and names lexicographically.
\<close>

fun priority_before :: "TaskPriority \<Rightarrow> TaskPriority \<Rightarrow> bool" where
  "priority_before high normal = True"
| "priority_before high low = True"
| "priority_before normal low = True"
| "priority_before _ _ = False"

fun status_before :: "TaskStatus \<Rightarrow> TaskStatus \<Rightarrow> bool" where
  "status_before not_completed completed = True"
| "status_before _ _ = False"

fun category_before :: "TaskCategory \<Rightarrow> TaskCategory \<Rightarrow> bool" where
  "category_before work study = True"
| "category_before work personal = True"
| "category_before study personal = True"
| "category_before _ _ = False"

definition date_before :: "date \<Rightarrow> date \<Rightarrow> bool" where
  "date_before d e \<longleftrightarrow>
     year d < year e \<or>
     (year d = year e \<and> (month d < month e \<or> (month d = month e \<and> day d < day e)))"

definition canonical_before :: "TaskRead \<Rightarrow> TaskRead \<Rightarrow> bool" where
  "canonical_before a b \<longleftrightarrow>
     priority_before (priority a) (priority b) \<or>
     (priority a = priority b \<and>
       (status_before (status a) (status b) \<or>
       (status a = status b \<and>
         (date_before (deadline a) (deadline b) \<or>
         (deadline a = deadline b \<and>
           (category_before (category a) (category b) \<or>
           (category a = category b \<and> name a < name b)))))))"

section \<open>Sample records\<close>

text \<open>Records in the style of the test suite (src/tests/test_task_service.py).\<close>

definition task_1 :: TaskRead where
  "task_1 = \<lparr>name = ''Task 1'', description = ''test task'', category = work,
             deadline = \<lparr>year = 2024, month = 12, day = 21\<rparr>, priority = high,
             id' = ''0a1b-0001'', status = not_completed\<rparr>"

definition task_2 :: TaskRead where
  "task_2 = \<lparr>name = ''Task 2'', description = '''', category = work,
             deadline = \<lparr>year = 2024, month = 12, day = 20\<rparr>, priority = high,
             id' = ''0a1b-0002'', status = not_completed\<rparr>"

definition task_3 :: TaskRead where
  "task_3 = \<lparr>name = ''Task 3'', description = ''123'', category = study,
             deadline = \<lparr>year = 2024, month = 12, day = 1\<rparr>, priority = low,
             id' = ''0a1b-0003'', status = not_completed\<rparr>"

definition store_123 :: TaskService where
  "store_123 = \<lparr>file_name = ''test_tasks.json'', tasks = [task_1, task_2, task_3]\<rparr>"

section \<open>Partial update, in the words of the specification\<close>





section \<open>Search, in the words of the specification\<close>

text \<open>
  A word boundary lies between two adjacent pieces of a text when exactly one of the
  two characters next to the cut is a word character.
\<close>

definition boundary_between :: "string \<Rightarrow> string \<Rightarrow> bool" where
  "boundary_between l r \<longleftrightarrow> (l \<noteq> [] \<and> is_word (last l)) \<noteq> (r \<noteq> [] \<and> is_word (hd r))"

text \<open>
  A keyword occurs as a whole word in a text: some piece of the text equals the keyword
  when case is ignored, and there is a word boundary at each end of the piece.
\<close>

definition whole_word :: "string \<Rightarrow> string \<Rightarrow> bool" where
  "whole_word kw s \<longleftrightarrow>
     (\<exists>pre mid post. s = pre @ mid @ post \<and> lower mid = lower kw \<and>
        boundary_between pre (mid @ post) \<and> boundary_between (pre @ mid) post)"

text \<open>The records that contain at least one of the keywords as a whole word.\<close>

definition containing :: "string list \<Rightarrow> TaskRead list \<Rightarrow> TaskRead list" where
  "containing kws ts =
     filter (\<lambda>t. \<exists>kw \<in> set kws. whole_word kw (name t) \<or> whole_word kw (description t)) ts"

text \<open>
  The tokenization as the specification words it: every run of whitespace becomes one
  space.
\<close>

function collapse_whitespace :: "string \<Rightarrow> string" where
  "collapse_whitespace [] = []"
| "collapse_whitespace (c # cs) =
     (if is_space c then CHR '' '' # collapse_whitespace (dropWhile is_space cs)
      else c # collapse_whitespace cs)"
  by pat_completeness auto
termination
  by (relation "measure length") (auto simp: length_dropWhile_le less_Suc_eq_le)

definition stated_keywords :: "string \<Rightarrow> string list" where
  "stated_keywords query = split_space (strip (collapse_whitespace (remove_punctuation query)))"


section \<open>More sample records\<close>



definition task_get :: TaskRead where
  "task_get = \<lparr>name = ''First'', description = ''test get task'', category = work,
             deadline = \<lparr>year = 2025, month = 1, day = 1\<rparr>, priority = high,
             id' = ''0a1b-0005'', status = not_completed\<rparr>"

definition task_update :: TaskRead where
  "task_update = \<lparr>name = ''Second'', description = ''test update task'', category = work,
             deadline = \<lparr>year = 2025, month = 1, day = 1\<rparr>, priority = high,
             id' = ''0a1b-0006'', status = not_completed\<rparr>"

definition store_gu :: TaskService where
  "store_gu = \<lparr>file_name = ''test_tasks.json'', tasks = [task_get, task_update]\<rparr>"

text \<open>The query \<open>get<TAB>task\<close>.\<close>

definition query_tab :: string where
  "query_tab = ''get'' @ [CHR 0x09] @ ''task''"

section \<open>Lookup by identifier\<close>








section \<open>Unknown identifiers\<close>




section \<open>The canonical order\<close>

lemma priority_before_iff:
  "priority_before p q \<longleftrightarrow> PRIORITY_SORT_ORDER p < PRIORITY_SORT_ORDER q"
  by (cases p; cases q) simp_all

lemma status_before_iff:
  "status_before p q \<longleftrightarrow> STATUS_SORT_ORDER p < STATUS_SORT_ORDER q"
  by (cases p; cases q) simp_all

lemma category_before_iff:
  "category_before p q \<longleftrightarrow> CATEGORY_SORT_ORDER p < CATEGORY_SORT_ORDER q"
  by (cases p; cases q) simp_all

lemma priority_rank_inj: "PRIORITY_SORT_ORDER p = PRIORITY_SORT_ORDER q \<longleftrightarrow> p = q"
  by (cases p; cases q) simp_all

lemma status_rank_inj: "STATUS_SORT_ORDER p = STATUS_SORT_ORDER q \<longleftrightarrow> p = q"
  by (cases p; cases q) simp_all

lemma category_rank_inj: "CATEGORY_SORT_ORDER p = CATEGORY_SORT_ORDER q \<longleftrightarrow> p = q"
  by (cases p; cases q) simp_all

lemma date_before_iff: "date_before d e \<longleftrightarrow> date_key d < date_key e"
  by (auto simp: date_before_def date_key_def)

lemma date_key_inj: "date_key d = date_key e \<longleftrightarrow> d = (e :: date)"
  by (auto simp: date_key_def)

lemma less_pair_iff:
  "(x1, y1) < (x2, y2) \<longleftrightarrow> x1 < x2 \<or> (x1 = x2 \<and> y1 < y2)"
  for x1 x2 :: "'a :: linorder" and y1 y2 :: "'b :: linorder"
  by auto

text \<open>The key of the source orders records as the specification describes.\<close>

lemma key_less_iff: "basic_sorting_key a < basic_sorting_key b \<longleftrightarrow> canonical_before a b"
  unfolding basic_sorting_key_def canonical_before_def less_pair_iff
    priority_before_iff status_before_iff category_before_iff date_before_iff
    priority_rank_inj status_rank_inj category_rank_inj date_key_inj
  by (rule refl)

lemma key_eq_iff:
  "basic_sorting_key b = basic_sorting_key a \<longleftrightarrow>
   \<not> canonical_before a b \<and> \<not> canonical_before b a"
  by (auto simp: key_less_iff [symmetric])

lemma sorted_key_canonical:
  "sorted (map basic_sorting_key xs) \<Longrightarrow> sorted_wrt (\<lambda>a b. \<not> canonical_before b a) xs"
  by (induction xs) (auto simp: key_less_iff [symmetric] not_less)

lemma sort_two_swap:
  "basic_sorting_key b < basic_sorting_key a \<Longrightarrow> sort_key basic_sorting_key [a, b] = [b, a]"
  by (simp add: not_le)

lemma abc_order:
  assumes "priority a = high" "priority b = high" "priority c = low" "status a = status b"
    "date_before (deadline b) (deadline a)"
  shows "sort_key basic_sorting_key [a, b, c] = [b, a, c]"
proof -
  have ba: "basic_sorting_key b < basic_sorting_key a"
    using assms by (simp add: key_less_iff canonical_before_def)
  have ac: "basic_sorting_key a < basic_sorting_key c"
    using assms by (simp add: key_less_iff canonical_before_def)
  from ba ac have bc: "basic_sorting_key b < basic_sorting_key c"
    by (rule less_trans)
  from ba ac bc show ?thesis
    by (simp add: insort_key.simps not_le less_imp_le)
qed

lemma key_2_1: "basic_sorting_key task_2 < basic_sorting_key task_1"
  by (simp add: basic_sorting_key_def task_1_def task_2_def date_key_def)

text \<open>Every record that \<open>add\<close> creates has the status \<open>not_completed\<close>.\<close>

lemma add_status:
  "fst (add uuid4 data need_save w) = Inr t \<Longrightarrow> status t = not_completed \<and> id' t = uuid4"
  by (cases w) (auto simp: add_def Let_def split: sum.splits)

text \<open>
  C1. \<open>get_all\<close> returns the records of the collection (each as often as it occurs
  there) in ascending canonical order: no record of the result is canonically before
  one that precedes it; records that tie under the five-part key keep the order they
  have in the collection (the sort is stable); the store after the call is the store
  before it. For records \<open>a\<close>, \<open>b\<close>, \<open>c\<close> stored in this order with the priorities and
  deadlines of the example and equal status (records just created all have the status
  \<open>not_completed\<close>, see \<open>add_status\<close>) the result is \<open>[b, a, c]\<close>.
\<close>

theorem get_all_canonical:
  "sorted_wrt (\<lambda>a b. \<not> canonical_before b a) (fst (get_all self))
   \<and> mset (fst (get_all self)) = mset (tasks self)
   \<and> (\<forall>a. filter (\<lambda>b. \<not> canonical_before a b \<and> \<not> canonical_before b a) (fst (get_all self))
          = filter (\<lambda>b. \<not> canonical_before a b \<and> \<not> canonical_before b a) (tasks self))
   \<and> snd (get_all self) = self
   \<and> (\<forall>a b c. tasks self = [a, b, c]
        \<and> priority a = high \<and> deadline a = \<lparr>year = 2024, month = 12, day = 21\<rparr>
        \<and> priority b = high \<and> deadline b = \<lparr>year = 2024, month = 12, day = 20\<rparr>
        \<and> priority c = low \<and> deadline c = \<lparr>year = 2024, month = 12, day = 1\<rparr>
        \<and> status a = status b
        \<longrightarrow> fst (get_all self) = [b, a, c])"
proof -
  have 1: "sorted_wrt (\<lambda>a b. \<not> canonical_before b a) (fst (get_all self))"
    by (simp add: get_all_def sorted_key_canonical)
  have 2: "mset (fst (get_all self)) = mset (tasks self)"
    by (simp add: get_all_def)
  have 3: "filter (\<lambda>b. \<not> canonical_before a b \<and> \<not> canonical_before b a) (fst (get_all self))
          = filter (\<lambda>b. \<not> canonical_before a b \<and> \<not> canonical_before b a) (tasks self)" for a
    unfolding key_eq_iff [symmetric] by (simp add: get_all_def sort_key_stable)
  have 4: "snd (get_all self) = self"
    by (simp add: get_all_def)
  have 5: "fst (get_all self) = [b, a, c]"
    if "tasks self = [a, b, c]" "priority a = high"
      "deadline a = \<lparr>year = 2024, month = 12, day = 21\<rparr>"
      "priority b = high" "deadline b = \<lparr>year = 2024, month = 12, day = 20\<rparr>"
      "priority c = low" "status a = status b" for a b c
    using that abc_order [of a b c] by (simp add: get_all_def date_before_def)
  from 1 2 3 4 5 show ?thesis by blast
qed

theorem get_all_canonical_witness:
  "fst (get_all store_123) = [task_2, task_1, task_3] \<and> snd (get_all store_123) = store_123"
  using get_all_canonical [of store_123]
  by (simp add: store_123_def task_1_def task_2_def task_3_def)

section \<open>Filters\<close>

text \<open>
  C9. The three filters return exactly the records of the collection that have the
  category, the status, or both, in the order of the collection (each result is a
  subsequence of the collection); they do not sort. On the sample store the records of
  category \<open>work\<close> come back as \<open>[task_1, task_2]\<close>, where the canonical order of the
  same records is \<open>[task_2, task_1]\<close>.
\<close>

theorem filters_keep_collection_order:
  "get_by_category c self = filter (\<lambda>t. category t = c) (tasks self)
   \<and> get_by_status st self = filter (\<lambda>t. status t = st) (tasks self)
   \<and> get_by_category_and_status c st self
       = filter (\<lambda>t. category t = c \<and> status t = st) (tasks self)
   \<and> subseq (get_by_category c self) (tasks self)
   \<and> subseq (get_by_status st self) (tasks self)
   \<and> subseq (get_by_category_and_status c st self) (tasks self)
   \<and> get_by_category work store_123 = [task_1, task_2]
   \<and> fst (get_all (store_123\<lparr>tasks := get_by_category work store_123\<rparr>)) = [task_2, task_1]"
proof -
  have a: "get_by_category c self = filter (\<lambda>t. category t = c) (tasks self)"
    unfolding get_by_category_def by (rule filter_cong) auto
  have b: "get_by_status st self = filter (\<lambda>t. status t = st) (tasks self)"
    unfolding get_by_status_def by (rule filter_cong) auto
  have c: "get_by_category_and_status c st self
       = filter (\<lambda>t. category t = c \<and> status t = st) (tasks self)"
    unfolding get_by_category_and_status_def by (rule filter_cong) auto
  have d: "get_by_category work store_123 = [task_1, task_2]"
    by (simp add: get_by_category_def store_123_def task_1_def task_2_def task_3_def)
  have e: "fst (get_all (store_123\<lparr>tasks := get_by_category work store_123\<rparr>)) = [task_2, task_1]"
    unfolding d using sort_two_swap [OF key_2_1] by (simp add: get_all_def)
  show ?thesis
    unfolding a b c using d e by (simp add: a)
qed

theorem filters_keep_collection_order_witness:
  "get_by_status not_completed store_123 = [task_1, task_2, task_3]
   \<and> get_by_category_and_status study not_completed store_123 = [task_3]
   \<and> get_by_category personal store_123 = []"
  using filters_keep_collection_order [of personal store_123 not_completed]
    filters_keep_collection_order [of study store_123 not_completed]
  by (simp add: store_123_def task_1_def task_2_def task_3_def)

section \<open>Dates and enumeration values survive the text form\<close>











section \<open>Partial update\<close>











section \<open>Search\<close>

lemma find_loop_filter:
  "find_loop p ts result = result @ filter (\<lambda>t. search p (name t) \<or> search p (description t)) ts"
  by (induction ts arbitrary: result) auto

lemma match_literals:
  "i \<le> length s \<Longrightarrow> match_at (map Literal kw @ rest) s i \<longleftrightarrow>
     i + length kw \<le> length s \<and> lower (take (length kw) (drop i s)) = lower kw \<and>
     match_at rest s (i + length kw)"
proof (induction kw arbitrary: i)
  case Nil
  then show ?case by (simp add: lower_def)
next
  case (Cons c kw)
  show ?case
  proof (cases "i < length s")
    case True
    then have "drop i s = s ! i # drop (Suc i) s"
      by (simp add: Cons_nth_drop_Suc)
    then show ?thesis
      using True Cons.IH [of "Suc i"] by (auto simp: lower_def)
  next
    case False
    then show ?thesis by simp
  qed
qed

lemma last_take: "0 < i \<Longrightarrow> i \<le> length s \<Longrightarrow> last (take i s) = s ! (i - 1)"
  by (cases i) (simp_all add: take_Suc_conv_app_nth)

lemma at_boundary_cut:
  "i \<le> length s \<Longrightarrow> at_boundary s i \<longleftrightarrow> boundary_between (take i s) (drop i s)"
  by (cases "i = 0"; cases "i < length s")
     (auto simp: at_boundary_def boundary_between_def last_take hd_drop_conv_nth
       hd_conv_nth last_conv_nth)

lemma match_branch:
  "i \<le> length s \<Longrightarrow> match_at ([Boundary] @ map Literal kw @ [Boundary]) s i \<longleftrightarrow>
     i + length kw \<le> length s \<and> lower (take (length kw) (drop i s)) = lower kw \<and>
     at_boundary s i \<and> at_boundary s (i + length kw)"
  by (auto simp: match_literals)

lemma length_lower: "lower a = lower b \<Longrightarrow> length a = length b"
  unfolding lower_def by (rule map_eq_imp_length_eq)

lemma whole_word_iff:
  "whole_word kw s \<longleftrightarrow>
     (\<exists>i. i + length kw \<le> length s \<and> lower (take (length kw) (drop i s)) = lower kw \<and>
          at_boundary s i \<and> at_boundary s (i + length kw))"
proof
  assume "whole_word kw s"
  then obtain pre mid post where s: "s = pre @ mid @ post" and m: "lower mid = lower kw"
    and b1: "boundary_between pre (mid @ post)" and b2: "boundary_between (pre @ mid) post"
    unfolding whole_word_def by blast
  have len: "length mid = length kw" using m by (rule length_lower)
  have "at_boundary s (length pre)"
    using b1 by (simp add: at_boundary_cut s)
  moreover have "at_boundary s (length pre + length kw)"
    using b2 by (simp add: at_boundary_cut s len [symmetric])
  moreover have "lower (take (length kw) (drop (length pre) s)) = lower kw"
    using m by (simp add: s len [symmetric])
  moreover have "length pre + length kw \<le> length s"
    by (simp add: s len)
  ultimately show "\<exists>i. i + length kw \<le> length s \<and> lower (take (length kw) (drop i s)) = lower kw \<and>
          at_boundary s i \<and> at_boundary s (i + length kw)"
    by blast
next
  assume "\<exists>i. i + length kw \<le> length s \<and> lower (take (length kw) (drop i s)) = lower kw \<and>
          at_boundary s i \<and> at_boundary s (i + length kw)"
  then obtain i where i: "i + length kw \<le> length s"
    and m: "lower (take (length kw) (drop i s)) = lower kw"
    and b1: "at_boundary s i" and b2: "at_boundary s (i + length kw)"
    by blast
  define pre where "pre = take i s"
  define mid where "mid = take (length kw) (drop i s)"
  define post where "post = drop (i + length kw) s"
  have d: "drop i s = mid @ post"
    unfolding mid_def post_def by (metis add.commute append_take_drop_id drop_drop)
  have s: "s = pre @ mid @ post"
    unfolding pre_def d [symmetric] by simp
  have t: "take (i + length kw) s = pre @ mid"
    unfolding pre_def mid_def by (simp add: take_add)
  from b1 i have "boundary_between (take i s) (drop i s)"
    by (simp add: at_boundary_cut)
  then have 1: "boundary_between pre (mid @ post)"
    unfolding d pre_def [symmetric] .
  from b2 i have "boundary_between (take (i + length kw) s) (drop (i + length kw) s)"
    by (simp add: at_boundary_cut)
  then have 2: "boundary_between (pre @ mid) post"
    unfolding t post_def [symmetric] .
  from m have 3: "lower mid = lower kw"
    unfolding mid_def .
  from s 1 2 3 show "whole_word kw s"
    unfolding whole_word_def by blast
qed

lemma list_ex_upto: "list_ex P [0 ..< Suc n] \<longleftrightarrow> (\<exists>i \<le> n. P i)"
  unfolding list_ex_iff Bex_def set_upt atLeastLessThan_iff by (auto simp: less_Suc_eq_le)

lemma search_compile:
  "search (compile kws) s \<longleftrightarrow> (\<exists>kw \<in> set kws. whole_word kw s)"
proof -
  have "search (compile kws) s \<longleftrightarrow>
      (\<exists>i \<le> length s. \<exists>kw \<in> set kws. match_at ([Boundary] @ map Literal kw @ [Boundary]) s i)"
    unfolding search_def list_ex_upto by (simp add: compile_def list_ex_iff)
  also have "\<dots> \<longleftrightarrow> (\<exists>kw \<in> set kws. \<exists>i \<le> length s. i + length kw \<le> length s \<and>
       lower (take (length kw) (drop i s)) = lower kw \<and>
       at_boundary s i \<and> at_boundary s (i + length kw))"
    using match_branch [of _ s] by blast
  also have "\<dots> \<longleftrightarrow> (\<exists>kw \<in> set kws. whole_word kw s)"
    unfolding whole_word_iff by (meson add_leD1 le_trans)
  finally show ?thesis .
qed

lemma containing_code:
  "containing kws ts =
     filter (\<lambda>t. search (compile kws) (name t) \<or> search (compile kws) (description t)) ts"
  unfolding containing_def search_compile by (rule filter_cong) auto

lemma find_containing:
  "find' query self = sort_key basic_sorting_key (containing (query_keywords query) (tasks self))"
  by (simp add: find'_def find_loop_filter containing_code)

lemma lower_Nil_iff: "lower mid = lower [] \<longleftrightarrow> mid = []"
  by (simp add: lower_def)











lemma whole_word_code: "whole_word kw s \<longleftrightarrow> search (compile [kw]) s"
  by (simp add: search_compile)







lemma collapse_other: "c \<noteq> CHR '' '' \<Longrightarrow> collapse_spaces (c # rest) = c # collapse_spaces rest"
  by (cases rest) simp_all

lemma collapse_run_end: "collapse_spaces (replicate (Suc n) CHR '' '') = '' ''"
  by (induction n) simp_all

lemma collapse_run:
  "c \<noteq> CHR '' '' \<Longrightarrow>
   collapse_spaces (replicate (Suc n) CHR '' '' @ c # rest) = CHR '' '' # collapse_spaces (c # rest)"
  by (induction n) simp_all

lemma sample_keywords:
  "query_keywords ''get task'' = [''get'', ''task'']"
  "query_keywords ''get'' = [''get'']"
  "query_keywords ''ask'' = [''ask'']"
  "query_keywords ''%get  &  updated!'' = [''get'', ''updated'']"
  "query_keywords query_tab = [query_tab]"
  "stated_keywords query_tab = [''get'', ''task'']"
  "query_keywords ''!'' = [[]]"
  by code_simp+

lemma sample_search:
  "search (compile [''get'', ''task'']) ''test update task''"
  "search (compile [''get'', ''task'']) ''test get task''"
  "search (compile [''get'']) ''test get task''"
  "\<not> search (compile [''get'']) ''test update task''"
  "\<not> search (compile [''get'']) ''Second''"
  "\<not> search (compile [''get'']) ''First''"
  by code_simp+




text \<open>
  C5, as the code has it. With the two descriptions of the example, \<open>find("get task")\<close>
  returns both records, in canonical order, whatever their names are: the keyword
  \<open>task\<close> is a whole word of both descriptions and keywords are alternatives. The query
  \<open>get\<close> returns only the record described as \<open>test get task\<close>, provided the name of the
  other record does not contain the word.
\<close>

theorem find_get_task:
  assumes "description a = ''test get task''" and "description b = ''test update task''"
  shows "find' ''get task'' (self\<lparr>tasks := [a, b]\<rparr>) = sort_key basic_sorting_key [a, b]
     \<and> (\<not> whole_word ''get'' (name b) \<longrightarrow> find' ''get'' (self\<lparr>tasks := [a, b]\<rparr>) = [a])"
proof -
  have "containing [''get'', ''task''] [a, b] = [a, b]"
    by (simp add: containing_code assms sample_search)
  moreover have "containing [''get''] [a, b] = [a]" if "\<not> whole_word ''get'' (name b)"
    using that by (simp add: containing_code assms sample_search whole_word_code)
  ultimately show ?thesis
    by (simp add: find_containing sample_keywords)
qed

theorem find_get_task_witness:
  "find' ''get task'' store_gu = [task_get, task_update] \<and> find' ''get'' store_gu = [task_get]"
proof -
  have 1: "description task_get = ''test get task''"
    and 2: "description task_update = ''test update task''"
    by (simp_all add: task_get_def task_update_def)
  have 3: "\<not> whole_word ''get'' (name task_update)"
    by (simp add: whole_word_code task_update_def sample_search)
  have 4: "sort_key basic_sorting_key [task_get, task_update] = [task_get, task_update]"
    by code_simp
  have 5: "store_gu\<lparr>tasks := [task_get, task_update]\<rparr> = store_gu"
    by (simp add: store_gu_def)
  show ?thesis
    using find_get_task [OF 1 2, of store_gu] 3 4 5 by simp
qed

text \<open>
  C5 as stated fails: on the store of the two records (names \<open>First\<close> and \<open>Second\<close>)
  the query \<open>get task\<close> returns both, not only the first.
\<close>

theorem find_get_task_counterexample:
  "find' ''get task'' store_gu = [task_get, task_update]"
  by code_simp



section \<open>Writing the file and reading it back\<close>

































lemma init_missing_file: "fs path = None \<Longrightarrow> init path fs = Inr \<lparr>file_name = path, tasks = []\<rparr>"
  by (simp add: init_def load_data_def)



text \<open>
  C6. A path that does not exist gives a store with an empty collection. A file that
  exists and is empty does not: \<open>json.load\<close> raises \<open>JSONDecodeError\<close> on the empty
  text and the construction fails, where the docstring of \<open>_load_data\<close> promises an
  empty list.
\<close>

theorem init_empty_file:
  "init path (fs(path := None)) = Inr \<lparr>file_name = path, tasks = []\<rparr>
   \<and> init path (fs(path \<mapsto> [])) = Inl JSONDecodeError"
  by (simp add: init_def load_data_def loads_def skip_ws_def)

theorem init_empty_file_witness:
  "init ''tasks.json'' Map.empty = Inr \<lparr>file_name = ''tasks.json'', tasks = []\<rparr>
   \<and> init ''tasks.json'' [''tasks.json'' \<mapsto> []] = Inl JSONDecodeError"
  using init_empty_file [of "''tasks.json''" Map.empty] by simp

end
